theory Spec2Isabelle
  imports Complex_Main "HOL-Library.AList"
begin

section \<open>JavaScript values\<close>

text \<open>
  The request adapter of \<^verbatim>\<open>src/utils/proTableRequest.ts\<close> receives whatever the injected
  API function resolves to, so the response is modelled as an untyped JavaScript value.
  A number is a finite rational (both zeros are \<open>Finite 0\<close>), NaN or an infinity; an
  object is the list of its own properties in insertion order, read by the first entry of
  a key. Functions and the members inherited from a prototype are not part of the model.
\<close>

datatype jsnumber = Finite rat | NaN | PosInfinity | NegInfinity

datatype jsvalue =
    JUndefined
  | JNull
  | JBool bool
  | JNum jsnumber
  | JStr string
  | JArr "jsvalue list"
  | JObj "(string \<times> jsvalue) list"

text \<open>What a \<^verbatim>\<open>throw\<close> or a rejected promise carries.\<close>

datatype error = TypeError | Thrown jsvalue

fun typeof :: "jsvalue \<Rightarrow> string" where
  "typeof JUndefined = ''undefined''"
| "typeof JNull = ''object''"
| "typeof (JBool b) = ''boolean''"
| "typeof (JNum n) = ''number''"
| "typeof (JStr s) = ''string''"
| "typeof (JArr xs) = ''object''"
| "typeof (JObj kvs) = ''object''"

text \<open>\<^verbatim>\<open>v == null\<close>: true of \<^verbatim>\<open>null\<close> and \<^verbatim>\<open>undefined\<close> only.\<close>

fun nullish :: "jsvalue \<Rightarrow> bool" where
  "nullish JUndefined = True"
| "nullish JNull = True"
| "nullish v = False"

text \<open>The truth value of \<^verbatim>\<open>v\<close> in \<^verbatim>\<open>v || d\<close> and \<^verbatim>\<open>if (v)\<close>.\<close>

fun truthy :: "jsvalue \<Rightarrow> bool" where
  "truthy JUndefined = False"
| "truthy JNull = False"
| "truthy (JBool b) = b"
| "truthy (JNum (Finite q)) = (q \<noteq> 0)"
| "truthy (JNum NaN) = False"
| "truthy (JNum PosInfinity) = True"
| "truthy (JNum NegInfinity) = True"
| "truthy (JStr s) = (s \<noteq> [])"
| "truthy (JArr xs) = True"
| "truthy (JObj kvs) = True"

text \<open>\<^verbatim>\<open>a || b\<close> and \<^verbatim>\<open>a ?? b\<close>.\<close>

definition js_or :: "jsvalue \<Rightarrow> jsvalue \<Rightarrow> jsvalue" where
  "js_or a b = (if truthy a then a else b)"

definition js_coalesce :: "jsvalue \<Rightarrow> jsvalue \<Rightarrow> jsvalue" where
  "js_coalesce a b = (if nullish a then b else a)"

fun isArray :: "jsvalue \<Rightarrow> bool" where
  "isArray (JArr xs) = True"
| "isArray v = False"

text \<open>
  A property key names an element of an array or a character of a string when it is the
  canonical decimal form of an index: digits only, no leading zero except \<^verbatim>\<open>"0"\<close> itself.
\<close>

definition is_digit :: "char \<Rightarrow> bool" where
  "is_digit c = (c \<in> set ''0123456789'')"

definition digit_val :: "char \<Rightarrow> nat" where
  "digit_val c = of_char c - 48"

definition array_index :: "string \<Rightarrow> nat option" where
  "array_index k =
     (case k of
        [] \<Rightarrow> None
      | c # cs \<Rightarrow>
          if list_all is_digit k \<and> (c \<noteq> CHR ''0'' \<or> cs = [])
          then Some (foldl (\<lambda>n d. 10 * n + digit_val d) 0 k)
          else None)"

text \<open>
  \<^verbatim>\<open>v[key]\<close> for a value that is neither \<^verbatim>\<open>null\<close> nor \<^verbatim>\<open>undefined\<close>: an own property of
  an object, an element or the length of an array or string, and \<^verbatim>\<open>undefined\<close> for
  everything absent.
\<close>

fun get_prop :: "jsvalue \<Rightarrow> string \<Rightarrow> jsvalue" where
  "get_prop (JObj kvs) key = (case map_of kvs key of Some v \<Rightarrow> v | None \<Rightarrow> JUndefined)"
| "get_prop (JArr xs) key =
     (case array_index key of
        Some i \<Rightarrow> if i < length xs then xs ! i else JUndefined
      | None \<Rightarrow> if key = ''length'' then JNum (Finite (of_nat (length xs))) else JUndefined)"
| "get_prop (JStr s) key =
     (case array_index key of
        Some i \<Rightarrow> if i < length s then JStr [s ! i] else JUndefined
      | None \<Rightarrow> if key = ''length'' then JNum (Finite (of_nat (length s))) else JUndefined)"
| "get_prop v key = JUndefined"

text \<open>
  The names of the members that every plain object inherits from \<^verbatim>\<open>Object.prototype\<close>.
  Under any other name a plain object has its own properties only.
\<close>

definition objectPrototypeMembers :: "string list" where
  "objectPrototypeMembers =
     [''constructor'', ''__proto__'', ''hasOwnProperty'', ''isPrototypeOf'',
      ''propertyIsEnumerable'', ''toLocaleString'', ''toString'', ''valueOf'',
      ''__defineGetter__'', ''__defineSetter__'', ''__lookupGetter__'', ''__lookupSetter__'']"

text \<open>\<^verbatim>\<open>v.key\<close> on any value: reading a property of \<^verbatim>\<open>null\<close> or \<^verbatim>\<open>undefined\<close> throws.\<close>

definition member :: "jsvalue \<Rightarrow> string \<Rightarrow> error + jsvalue" where
  "member v key = (if nullish v then Inl TypeError else Inr (get_prop v key))"

text \<open>\<^verbatim>\<open>s.split(c)\<close> for a one-character separator: the empty string gives one empty piece.\<close>

fun split_str :: "string \<Rightarrow> char \<Rightarrow> string list" where
  "split_str [] c = [[]]"
| "split_str (x # xs) c =
     (if x = c then [] # split_str xs c
      else (case split_str xs c of
              [] \<Rightarrow> [[x]]
            | w # ws \<Rightarrow> (x # w) # ws))"

section \<open>The request adapter\<close>

subsection \<open>getValueByPath\<close>

text \<open>
  \<^verbatim>\<open>
  function getValueByPath(obj: any, path: string): any {
    const keys = path.split('.');
    let value = obj;
    for (const key of keys) {
      if (value == null || typeof value !== 'object') {
        return undefined;
      }
      value = value[key];
    }
    return value;
  }
  \<close>
  The loop over the keys is the recursion of \<open>getValueByPath_loop\<close>.
\<close>

fun getValueByPath_loop :: "jsvalue \<Rightarrow> string list \<Rightarrow> jsvalue" where
  "getValueByPath_loop v [] = v"
| "getValueByPath_loop v (key # keys) =
     (if nullish v \<or> typeof v \<noteq> ''object'' then JUndefined
      else getValueByPath_loop (get_prop v key) keys)"

definition getValueByPath :: "jsvalue \<Rightarrow> string \<Rightarrow> jsvalue" where
  "getValueByPath obj path = getValueByPath_loop obj (split_str path CHR ''.'')"




subsection \<open>Options and their defaults\<close>

text \<open>
  The interfaces of the source, every property optional: \<open>None\<close> is a property that is
  missing or \<^verbatim>\<open>undefined\<close>. \<open>transformParamsEnabled\<close> is the flag
  \<^verbatim>\<open>paramTransform.transformParams\<close>; the name \<open>transformParams\<close> is kept for the custom
  function of the options. The grid's parameter object is the list of its properties.
\<close>

type_synonym ProTableParams = "(string \<times> jsvalue) list"

record ProTableResponse =
  data :: jsvalue
  success :: jsvalue
  total :: jsvalue

record ParamTransformConfig =
  currentTo :: "string option"
  pageSizeTo :: "string option"
  transformParamsEnabled :: "bool option"

record ResponseTransformConfig =
  dataPath :: "string option"
  totalPath :: "string option"

record CreateProTableRequestOptions =
  paramTransform :: "ParamTransformConfig option"
  responseTransform :: "ResponseTransformConfig option"
  transformParams :: "(ProTableParams \<Rightarrow> error + jsvalue) option"
  transformResponse :: "(jsvalue \<Rightarrow> error + ProTableResponse) option"

definition defaultParamTransform :: ParamTransformConfig where
  "defaultParamTransform =
     \<lparr>currentTo = Some ''page'', pageSizeTo = Some ''per'', transformParamsEnabled = Some True\<rparr>"

definition defaultResponseTransform :: ResponseTransformConfig where
  "defaultResponseTransform = \<lparr>dataPath = Some ''data.list'', totalPath = Some ''data.total''\<rparr>"

definition defaultOptions :: CreateProTableRequestOptions where
  "defaultOptions =
     \<lparr>paramTransform = Some defaultParamTransform,
      responseTransform = Some defaultResponseTransform,
      transformParams = None,
      transformResponse = None\<rparr>"

text \<open>
  \<^verbatim>\<open>{...defaults, ...(given || {})}\<close>: a property of the given object replaces the default.
  A property given as \<^verbatim>\<open>undefined\<close> replaces it by \<^verbatim>\<open>undefined\<close> in the source; here the
  default stays, and every reader of these fields maps both to the same result
  (\<^verbatim>\<open>|| 'page'\<close>, \<^verbatim>\<open>|| 'per'\<close>, \<^verbatim>\<open>!== false\<close>, \<^verbatim>\<open>|| 'data.list'\<close>, \<^verbatim>\<open>|| 'data.total'\<close>).
\<close>

definition spread_opt :: "'a option \<Rightarrow> 'a option \<Rightarrow> 'a option" where
  "spread_opt dflt given = (case given of None \<Rightarrow> dflt | Some x \<Rightarrow> Some x)"

definition mergeParamTransform :: "ParamTransformConfig option \<Rightarrow> ParamTransformConfig" where
  "mergeParamTransform given =
     (case given of
        None \<Rightarrow> defaultParamTransform
      | Some g \<Rightarrow>
          \<lparr>currentTo = spread_opt (currentTo defaultParamTransform) (currentTo g),
           pageSizeTo = spread_opt (pageSizeTo defaultParamTransform) (pageSizeTo g),
           transformParamsEnabled =
             spread_opt (transformParamsEnabled defaultParamTransform) (transformParamsEnabled g)\<rparr>)"

definition mergeResponseTransform ::
  "ResponseTransformConfig option \<Rightarrow> ResponseTransformConfig" where
  "mergeResponseTransform given =
     (case given of
        None \<Rightarrow> defaultResponseTransform
      | Some g \<Rightarrow>
          \<lparr>dataPath = spread_opt (dataPath defaultResponseTransform) (dataPath g),
           totalPath = spread_opt (totalPath defaultResponseTransform) (totalPath g)\<rparr>)"

text \<open>\<^verbatim>\<open>name || dflt\<close> on an optional string: the empty string is falsy too.\<close>

definition str_or :: "string option \<Rightarrow> string \<Rightarrow> string" where
  "str_or name dflt = (case name of None \<Rightarrow> dflt | Some s \<Rightarrow> if s = [] then dflt else s)"

subsection \<open>The default transforms\<close>

text \<open>
  \<^verbatim>\<open>
  const { current, pageSize, ...restParams } = params;
  apiParams = {
    ...restParams,
    [config.paramTransform.currentTo || 'page']: current,
    [config.paramTransform.pageSizeTo || 'per']: pageSize,
  };
  \<close>
  A computed key that the rest already has overwrites the value in place; a new one is
  appended.
\<close>

definition defaultTransformParams :: "ParamTransformConfig \<Rightarrow> ProTableParams \<Rightarrow> ProTableParams" where
  "defaultTransformParams pt params =
     (let current = get_prop (JObj params) ''current'';
          pageSize = get_prop (JObj params) ''pageSize'';
          restParams = AList.delete ''pageSize'' (AList.delete ''current'' params)
      in AList.update (str_or (pageSizeTo pt) ''per'') pageSize
           (AList.update (str_or (currentTo pt) ''page'') current restParams))"

text \<open>
  \<^verbatim>\<open>
  const responseData = response.data as any;
  const data = getValueByPath(response, config.responseTransform.dataPath || 'data.list') || [];
  const total = getValueByPath(response, config.responseTransform.totalPath || 'data.total') || 0;
  return {
    data: Array.isArray(data) ? data : [],
    success: response.success ?? true,
    total: typeof total === 'number' ? total : 0,
  };
  \<close>
  The unused read of \<^verbatim>\<open>response.data\<close> stays in the model: it is what throws when the
  response is \<^verbatim>\<open>null\<close> or \<^verbatim>\<open>undefined\<close>.
\<close>

definition defaultTransformResponse ::
  "ResponseTransformConfig \<Rightarrow> jsvalue \<Rightarrow> error + ProTableResponse" where
  "defaultTransformResponse rt response =
     (case member response ''data'' of
        Inl e \<Rightarrow> Inl e
      | Inr responseData \<Rightarrow>
          (let d = js_or (getValueByPath response (str_or (dataPath rt) ''data.list'')) (JArr []);
               t = js_or (getValueByPath response (str_or (totalPath rt) ''data.total''))
                     (JNum (Finite 0))
           in case member response ''success'' of
                Inl e \<Rightarrow> Inl e
              | Inr s \<Rightarrow>
                  Inr \<lparr>data = (if isArray d then d else JArr []),
                       success = js_coalesce s (JBool True),
                       total = (if typeof t = ''number'' then t else JNum (Finite 0))\<rparr>))"

subsection \<open>createProTableRequest\<close>

definition failureResponse :: ProTableResponse where
  "failureResponse = \<lparr>data = JArr [], success = JBool False, total = JNum (Finite 0)\<rparr>"

text \<open>
  The parameters handed to the API function (the first half of the \<^verbatim>\<open>try\<close> block): the
  custom function when there is one, else the default transform unless the flag is
  \<^verbatim>\<open>false\<close>, else the parameters as they are.
\<close>

definition apiParamsOf :: "CreateProTableRequestOptions \<Rightarrow> ProTableParams \<Rightarrow> error + jsvalue" where
  "apiParamsOf options params =
     (let pt = mergeParamTransform (paramTransform options)
      in case transformParams options of
           Some f \<Rightarrow> f params
         | None \<Rightarrow>
             if transformParamsEnabled pt \<noteq> Some False
             then Inr (JObj (defaultTransformParams pt params))
             else Inr (JObj params))"

text \<open>
  The body of the \<^verbatim>\<open>try\<close> block of the function that
  \<^verbatim>\<open>createProTableRequest(apiFunction, options)\<close> returns, applied to the grid's
  parameters (\<^verbatim>\<open>sort\<close> and \<^verbatim>\<open>filter\<close> are never read). The API function is its outcome on
  each argument: \<open>Inl\<close> when the awaited call throws or rejects. \<open>Inl\<close> is an error thrown
  anywhere in the block. The custom transforms are synchronous, as their types say.
\<close>

definition tryBlock ::
  "(jsvalue \<Rightarrow> error + jsvalue) \<Rightarrow> CreateProTableRequestOptions \<Rightarrow> ProTableParams
     \<Rightarrow> error + ProTableResponse" where
  "tryBlock apiFunction options params =
     (let rt = mergeResponseTransform (responseTransform options)
      in case apiParamsOf options params of
           Inl e \<Rightarrow> Inl e
         | Inr apiParams \<Rightarrow>
             (case apiFunction apiParams of
                Inl e \<Rightarrow> Inl e
              | Inr response \<Rightarrow>
                  (case transformResponse options of
                     Some g \<Rightarrow> g response
                   | None \<Rightarrow> defaultTransformResponse rt response)))"

text \<open>
  The returned function: the \<^verbatim>\<open>catch\<close> block logs the error and returns
  \<open>failureResponse\<close>. The result is the outcome of the returned promise, \<open>Inl\<close> for a
  rejection.
\<close>

definition createProTableRequest ::
  "(jsvalue \<Rightarrow> error + jsvalue) \<Rightarrow> CreateProTableRequestOptions \<Rightarrow> ProTableParams
     \<Rightarrow> error + ProTableResponse" where
  "createProTableRequest apiFunction options params =
     (case tryBlock apiFunction options params of
        Inl e \<Rightarrow> Inr failureResponse
      | Inr r \<Rightarrow> Inr r)"

text \<open>The default value \<^verbatim>\<open>{}\<close> of the \<^verbatim>\<open>options\<close> argument.\<close>

definition noOptions :: CreateProTableRequestOptions where
  "noOptions =
     \<lparr>paramTransform = None, responseTransform = None,
      transformParams = None, transformResponse = None\<rparr>"

definition defaultProTableRequest ::
  "(jsvalue \<Rightarrow> error + jsvalue) \<Rightarrow> ProTableParams \<Rightarrow> error + ProTableResponse" where
  "defaultProTableRequest apiFunction = createProTableRequest apiFunction noOptions"

section \<open>The image upload widget\<close>

text \<open>
  \<^verbatim>\<open>src/components/ImageUpload/index.tsx\<close> holds the component in three versions. The
  first commits up to \<^verbatim>\<open>maxCount\<close> images, the third a single image; both have the
  Confirm and Cancel handlers modelled here, and all three share \<^verbatim>\<open>validateFileType\<close>.
  A handler maps the state it reads to the state its \<^verbatim>\<open>set...\<close> calls leave, together
  with the calls it makes to the parent's callbacks, in order.
\<close>

subsection \<open>Strings\<close>

text \<open>
  A character is a code unit below 256, so file names and extensions are strings over
  Latin-1. On these \<^verbatim>\<open>toLowerCase\<close> maps the letters A to Z and the capital letters
  \<open>0xC0\<close> to \<open>0xDE\<close> (without the sign \<open>0xD7\<close>) to the code unit 32 above, and nothing
  else.
\<close>

definition upperCaseLetters :: string where
  "upperCaseLetters = ''ABCDEFGHIJKLMNOPQRSTUVWXYZ'' @
     [CHR 0xC0, CHR 0xC1, CHR 0xC2, CHR 0xC3, CHR 0xC4, CHR 0xC5, CHR 0xC6, CHR 0xC7,
      CHR 0xC8, CHR 0xC9, CHR 0xCA, CHR 0xCB, CHR 0xCC, CHR 0xCD, CHR 0xCE, CHR 0xCF,
      CHR 0xD0, CHR 0xD1, CHR 0xD2, CHR 0xD3, CHR 0xD4, CHR 0xD5, CHR 0xD6,
      CHR 0xD8, CHR 0xD9, CHR 0xDA, CHR 0xDB, CHR 0xDC, CHR 0xDD, CHR 0xDE]"

definition lowerCaseLetters :: string where
  "lowerCaseLetters = ''abcdefghijklmnopqrstuvwxyz'' @
     [CHR 0xE0, CHR 0xE1, CHR 0xE2, CHR 0xE3, CHR 0xE4, CHR 0xE5, CHR 0xE6, CHR 0xE7,
      CHR 0xE8, CHR 0xE9, CHR 0xEA, CHR 0xEB, CHR 0xEC, CHR 0xED, CHR 0xEE, CHR 0xEF,
      CHR 0xF0, CHR 0xF1, CHR 0xF2, CHR 0xF3, CHR 0xF4, CHR 0xF5, CHR 0xF6,
      CHR 0xF8, CHR 0xF9, CHR 0xFA, CHR 0xFB, CHR 0xFC, CHR 0xFD, CHR 0xFE]"

definition toLowerChar :: "char \<Rightarrow> char" where
  "toLowerChar c =
     (case map_of (zip upperCaseLetters lowerCaseLetters) c of
        None \<Rightarrow> c
      | Some l \<Rightarrow> l)"

definition toLowerCase :: "string \<Rightarrow> string" where
  "toLowerCase s = map toLowerChar s"

text \<open>\<^verbatim>\<open>s.lastIndexOf(c)\<close>: the index of the last occurrence, or \<open>-1\<close>.\<close>

fun lastIndexOf_from :: "string \<Rightarrow> char \<Rightarrow> nat \<Rightarrow> int \<Rightarrow> int" where
  "lastIndexOf_from [] c i found = found"
| "lastIndexOf_from (x # xs) c i found =
     lastIndexOf_from xs c (Suc i) (if x = c then int i else found)"

definition lastIndexOf :: "string \<Rightarrow> char \<Rightarrow> int" where
  "lastIndexOf s c = lastIndexOf_from s c 0 (- 1)"

text \<open>\<^verbatim>\<open>s.substring(n)\<close>: the rest from index \<open>n\<close>, a negative \<open>n\<close> counting as 0.\<close>

definition substring :: "string \<Rightarrow> int \<Rightarrow> string" where
  "substring s n = drop (nat n) s"

text \<open>\<^verbatim>\<open>xs.slice(0, n)\<close> for an integer \<open>n\<close>: a negative \<open>n\<close> counts from the end.\<close>

definition slice0 :: "'a list \<Rightarrow> int \<Rightarrow> 'a list" where
  "slice0 xs n = (if n < 0 then take (nat (int (length xs) + n)) xs else take (nat n) xs)"

subsection \<open>validateFileType\<close>

text \<open>
  The two properties of the browser's \<^verbatim>\<open>File\<close> that the check reads; \<^verbatim>\<open>type\<close> is the
  empty string when the browser reports none.
\<close>

record File =
  name :: string
  type :: string

text \<open>
  \<^verbatim>\<open>
  const mimeTypeMap: Record<string, string[]> = {
    png: ['image/png'],
    jpeg: ['image/jpeg', 'image/jpg'],
    jpg: ['image/jpeg', 'image/jpg'],
    svg: ['image/svg+xml'],
  };
  \<close>
\<close>

text \<open>
  What \<^verbatim>\<open>mimeTypeMap[key]\<close> reads: the list of one of the four own properties; a member
  that the object literal inherits from \<^verbatim>\<open>Object.prototype\<close> (a function, or the prototype
  itself for \<^verbatim>\<open>__proto__\<close>); or \<^verbatim>\<open>undefined\<close>.
\<close>

datatype MimeEntry = Listed "string list" | InheritedMember | NoEntry

definition mimeTypeMap :: "string \<Rightarrow> MimeEntry" where
  "mimeTypeMap key =
     (case map_of
        [(''png'', [''image/png'']),
         (''jpeg'', [''image/jpeg'', ''image/jpg'']),
         (''jpg'', [''image/jpeg'', ''image/jpg'']),
         (''svg'', [''image/svg+xml''])] key of
        Some ms \<Rightarrow> Listed ms
      | None \<Rightarrow> if key \<in> set objectPrototypeMembers then InheritedMember else NoEntry)"

text \<open>
  The function returns \<^verbatim>\<open>false\<close> after a \<^verbatim>\<open>message.error\<close> at three places: no dot in the
  name, extension not allowed, MIME type not accepted. The message is not modelled.
  \<^verbatim>\<open>mimeTypeMap[fileExtension] || []\<close> is the empty list when the table has no entry; an
  inherited member is truthy and has no method \<^verbatim>\<open>some\<close>, so the call
  \<^verbatim>\<open>allowedMimeTypes.some(...)\<close> throws a TypeError.
\<close>

definition validateFileType :: "string list \<Rightarrow> File \<Rightarrow> error + bool" where
  "validateFileType allowedExtensions file =
     (let fileName = toLowerCase (name file);
          lastDotIndex = lastIndexOf fileName CHR ''.''
      in if lastDotIndex = - 1 then Inr False
         else
           let fileExtension = substring fileName (lastDotIndex + 1);
               isValidExtension = list_ex (\<lambda>ext. toLowerCase ext = fileExtension) allowedExtensions
           in if \<not> isValidExtension then Inr False
              else if type file \<noteq> [] then
                (case mimeTypeMap fileExtension of
                   InheritedMember \<Rightarrow> Inl TypeError
                 | entry \<Rightarrow>
                     let allowedMimeTypes = (case entry of Listed ms \<Rightarrow> ms | _ \<Rightarrow> []);
                         isValidMimeType = list_ex (\<lambda>mime. type file = mime) allowedMimeTypes
                     in if \<not> isValidMimeType then Inr False else Inr True)
              else Inr True)"

text \<open>
  The extension the check derives, and its first two exits taken together (the extension
  gate): there is a dot and the part after the last one is an allowed extension.
\<close>

definition fileExtensionOf :: "File \<Rightarrow> string" where
  "fileExtensionOf file =
     substring (toLowerCase (name file)) (lastIndexOf (toLowerCase (name file)) CHR ''.'' + 1)"

definition extensionGate :: "string list \<Rightarrow> File \<Rightarrow> bool" where
  "extensionGate allowedExtensions file =
     (lastIndexOf (toLowerCase (name file)) CHR ''.'' \<noteq> - 1 \<and>
      list_ex (\<lambda>ext. toLowerCase ext = fileExtensionOf file) allowedExtensions)"

subsection \<open>State, Confirm and Cancel\<close>

datatype UploadFileStatus = Error | Done | Uploading | Removed

record UploadFile =
  uid :: string
  status :: "UploadFileStatus option"
  url :: "string option"

text \<open>
  The dialog state the versions share, extended by the committed images: a list of URLs
  in the first version, one optional URL in the third.
\<close>

record DialogState =
  modalVisible :: bool
  fileList :: "UploadFile list"

record MultiState = DialogState +
  imageUrls :: "string list"

record SingleState = DialogState +
  imageUrl :: "string option"

text \<open>
  What a callback receives: one URL, a sequence of URLs, or \<^verbatim>\<open>undefined\<close> (the value of
  \<^verbatim>\<open>allUrls[0]\<close> on an empty array).
\<close>

datatype UrlValue = Url string | Urls "string list" | NoUrl

datatype Call = OnChange UrlValue | OnSuccess UrlValue

text \<open>The props read by the handlers: \<^verbatim>\<open>maxCount\<close> and whether each callback is given.\<close>

record ImageUploadProps =
  maxCount :: int
  onChange :: bool
  onSuccess :: bool

text \<open>\<^verbatim>\<open>onChange?.(result); onSuccess?.(result);\<close>\<close>

definition notify :: "ImageUploadProps \<Rightarrow> UrlValue \<Rightarrow> Call list" where
  "notify props result =
     (if onChange props then [OnChange result] else []) @
     (if onSuccess props then [OnSuccess result] else [])"

text \<open>\<^verbatim>\<open>file.status === 'done' && file.url\<close>: the URL is set and not empty.\<close>

definition doneWithUrl :: "UploadFile \<Rightarrow> bool" where
  "doneWithUrl file =
     (status file = Some Done \<and> (case url file of None \<Rightarrow> False | Some u \<Rightarrow> u \<noteq> []))"

text \<open>\<^verbatim>\<open>file.url!\<close> of a file that passed the filter.\<close>

definition urlOf :: "UploadFile \<Rightarrow> string" where
  "urlOf file = (case url file of None \<Rightarrow> [] | Some u \<Rightarrow> u)"

text \<open>
  \<^verbatim>\<open>
  const handleConfirm = () => {
    const newUploadedFiles = fileList
      .filter(file => file.status === 'done' && file.url)
      .map(file => file.url!);
    if (newUploadedFiles.length > 0) {
      const allUrls = [...imageUrls, ...newUploadedFiles].slice(0, maxCount);
      const result = maxCount === 1 ? allUrls[0] : allUrls;
      setImageUrls(allUrls);
      onChange?.(result);
      onSuccess?.(result);
      setFileList([]);
      setModalVisible(false);
    }
  };
  \<close>
\<close>

definition handleConfirm :: "ImageUploadProps \<Rightarrow> MultiState \<Rightarrow> MultiState \<times> Call list" where
  "handleConfirm props st =
     (let newUploadedFiles = map urlOf (filter doneWithUrl (fileList st))
      in if length newUploadedFiles > 0 then
           let allUrls = slice0 (imageUrls st @ newUploadedFiles) (maxCount props);
               result = (if maxCount props = 1
                         then (case allUrls of [] \<Rightarrow> NoUrl | u # us \<Rightarrow> Url u)
                         else Urls allUrls)
           in (st\<lparr>imageUrls := allUrls, fileList := [], modalVisible := False\<rparr>,
               notify props result)
         else (st, []))"

text \<open>
  The third version, which has no \<^verbatim>\<open>maxCount\<close>:
  \<^verbatim>\<open>
  const handleConfirm = () => {
    const uploadedFile = fileList.find(file => file.status === 'done' && file.url);
    if (uploadedFile?.url) {
      setImageUrl(uploadedFile.url);
      onChange?.(uploadedFile.url);
      onSuccess?.(uploadedFile.url);
      setFileList([]);
      setModalVisible(false);
    }
  };
  \<close>
\<close>

definition handleConfirm_single ::
  "ImageUploadProps \<Rightarrow> SingleState \<Rightarrow> SingleState \<times> Call list" where
  "handleConfirm_single props st =
     (case find doneWithUrl (fileList st) of
        None \<Rightarrow> (st, [])
      | Some uploadedFile \<Rightarrow>
          (case url uploadedFile of
             None \<Rightarrow> (st, [])
           | Some u \<Rightarrow>
               if u \<noteq> [] then
                 (st\<lparr>imageUrl := Some u, fileList := [], modalVisible := False\<rparr>,
                  notify props (Url u))
               else (st, [])))"

text \<open>
  The same in both versions:
  \<^verbatim>\<open>
  const handleCancel = () => {
    const isUploading = fileList.some(file => file.status === 'uploading');
    if (!isUploading) {
      setFileList([]);
      setModalVisible(false);
    }
  };
  \<close>
\<close>

definition handleCancel :: "'a DialogState_scheme \<Rightarrow> 'a DialogState_scheme" where
  "handleCancel st =
     (let isUploading = list_ex (\<lambda>file. status file = Some Uploading) (fileList st)
      in if \<not> isUploading then st\<lparr>fileList := [], modalVisible := False\<rparr> else st)"

section \<open>Properties of the request adapter\<close>

subsection \<open>Auxiliary facts\<close>


text \<open>
  The default response transform in closed form: it throws on \<^verbatim>\<open>null\<close> and \<^verbatim>\<open>undefined\<close>
  only, and otherwise each field is decided by one test.
\<close>

lemma defaultTransformResponse_eq:
  "defaultTransformResponse rt response =
     (if nullish response then Inl TypeError
      else Inr \<lparr>data = (let d = getValueByPath response (str_or (dataPath rt) ''data.list'')
                         in if isArray d then d else JArr []),
                success = js_coalesce (get_prop response ''success'') (JBool True),
                total = (let t = getValueByPath response (str_or (totalPath rt) ''data.total'')
                         in if typeof t = ''number'' \<and> truthy t then t else JNum (Finite 0))\<rparr>)"
proof -
  have a: "(if isArray (js_or d (JArr [])) then js_or d (JArr []) else JArr []) =
           (if isArray d then d else JArr [])" for d
    by (cases d) (auto simp: js_or_def)
  have b: "(if typeof (js_or t (JNum (Finite 0))) = ''number'' then js_or t (JNum (Finite 0))
            else JNum (Finite 0)) =
           (if typeof t = ''number'' \<and> truthy t then t else JNum (Finite 0))" for t
    by (cases t) (auto simp: js_or_def)
  show ?thesis
    by (simp add: defaultTransformResponse_def member_def Let_def a b)
qed

lemma merge_none:
  "mergeResponseTransform None = defaultResponseTransform"
  "mergeParamTransform None = defaultParamTransform"
  by (simp_all add: mergeResponseTransform_def mergeParamTransform_def)

lemma apiParamsOf_noOptions:
  "apiParamsOf noOptions params = Inr (JObj (defaultTransformParams defaultParamTransform params))"
  by (simp add: apiParamsOf_def noOptions_def merge_none defaultParamTransform_def)

lemma tryBlock_default:
  "apiFunction (JObj (defaultTransformParams defaultParamTransform params)) = Inr response \<Longrightarrow>
   tryBlock apiFunction noOptions params =
     defaultTransformResponse defaultResponseTransform response"
  by (simp add: tryBlock_def apiParamsOf_noOptions) (simp add: noOptions_def merge_none)

lemma get_prop_update:
  "get_prop (JObj (AList.update k v kvs)) k' = (if k' = k then v else get_prop (JObj kvs) k')"
  by (simp add: update_conv')

lemma get_prop_delete:
  "get_prop (JObj (AList.delete k kvs)) k' =
     (if k' = k then JUndefined else get_prop (JObj kvs) k')"
  by (simp add: delete_conv')

lemma defaultTransformParams_get:
  "get_prop (JObj (defaultTransformParams defaultParamTransform params)) k =
     (if k = ''per'' then get_prop (JObj params) ''pageSize''
      else if k = ''page'' then get_prop (JObj params) ''current''
      else if k = ''pageSize'' \<or> k = ''current'' then JUndefined
      else get_prop (JObj params) k)"
  unfolding defaultTransformParams_def Let_def defaultParamTransform_def str_or_def
  by (simp only: get_prop_update get_prop_delete) simp

lemmas adapter_eval = defaultProTableRequest_def createProTableRequest_def tryBlock_def
  apiParamsOf_def noOptions_def mergeResponseTransform_def mergeParamTransform_def
  defaultParamTransform_def defaultResponseTransform_def defaultTransformParams_def
  defaultTransformResponse_def member_def getValueByPath_def str_or_def js_or_def
  js_coalesce_def failureResponse_def Let_def

subsection \<open>A failing backend call\<close>

text \<open>
  Claim C1. For every API function, every options object and every parameter object, the
  promise of the request function resolves, never rejects; and if the backend call, made
  with the transformed parameters, rejects or throws, it resolves to exactly
  \<^verbatim>\<open>{data: [], success: false, total: 0}\<close>.
\<close>

theorem request_absorbs_backend_failure:
  "(\<exists>r. createProTableRequest apiFunction options params = Inr r) \<and>
   (apiParamsOf options params = Inr apiParams \<and> apiFunction apiParams = Inl e \<longrightarrow>
      createProTableRequest apiFunction options params =
        Inr \<lparr>data = JArr [], success = JBool False, total = JNum (Finite 0)\<rparr>)"
  by (simp add: createProTableRequest_def tryBlock_def failureResponse_def Let_def
      split: sum.split)

text \<open>
  The theorem at a backend that rejects every call with the reason \<^verbatim>\<open>'timeout'\<close>, for
  the request \<^verbatim>\<open>{current: 1, pageSize: 10}\<close> under the default options.
\<close>

theorem request_absorbs_backend_failure_witness:
  "apiParamsOf noOptions [(''current'', JNum (Finite 1)), (''pageSize'', JNum (Finite 10))]
     = Inr (JObj [(''page'', JNum (Finite 1)), (''per'', JNum (Finite 10))]) \<and>
   createProTableRequest (\<lambda>apiParams. Inl (Thrown (JStr ''timeout''))) noOptions
       [(''current'', JNum (Finite 1)), (''pageSize'', JNum (Finite 10))]
     = Inr \<lparr>data = JArr [], success = JBool False, total = JNum (Finite 0)\<rparr>"
proof -
  have h: "apiParamsOf noOptions [(''current'', JNum (Finite 1)), (''pageSize'', JNum (Finite 10))]
             = Inr (JObj [(''page'', JNum (Finite 1)), (''per'', JNum (Finite 10))])"
    by (simp add: adapter_eval)
  show ?thesis
    using h request_absorbs_backend_failure
      [of "\<lambda>apiParams. Inl (Thrown (JStr ''timeout''))" noOptions
          "[(''current'', JNum (Finite 1)), (''pageSize'', JNum (Finite 10))]"
          "JObj [(''page'', JNum (Finite 1)), (''per'', JNum (Finite 10))]"
          "Thrown (JStr ''timeout'')"]
    by simp
qed

subsection \<open>The default parameter transform\<close>

text \<open>
  Claim C2, as stated, fails. The claim: \<^verbatim>\<open>current\<close> is sent as \<^verbatim>\<open>page\<close>, \<^verbatim>\<open>pageSize\<close> as
  \<^verbatim>\<open>per\<close>, and every other field of the request is passed through with its value
  unchanged. The request \<^verbatim>\<open>{current: 2, pageSize: 15, page: 9}\<close> has the other field
  \<^verbatim>\<open>page\<close> with the value 9; the backend receives \<^verbatim>\<open>{page: 2, per: 15}\<close>, where \<^verbatim>\<open>page\<close> is 2:
  the computed keys are written after the spread of the rest and overwrite it.
\<close>

theorem param_transform_overwrite_counterexample:
  "apiParamsOf noOptions
     [(''current'', JNum (Finite 2)), (''pageSize'', JNum (Finite 15)), (''page'', JNum (Finite 9))]
     = Inr (JObj [(''page'', JNum (Finite 2)), (''per'', JNum (Finite 15))]) \<and>
   get_prop (JObj [(''page'', JNum (Finite 2)), (''per'', JNum (Finite 15))]) ''page''
     \<noteq> get_prop
         (JObj [(''current'', JNum (Finite 2)), (''pageSize'', JNum (Finite 15)),
                (''page'', JNum (Finite 9))]) ''page''"
  by (simp add: adapter_eval)

text \<open>
  Claim C2, amended. For every request (the valid ones, with \<^verbatim>\<open>current \<ge> 1\<close> and
  \<^verbatim>\<open>pageSize > 0\<close>, among them), the default parameter transform sends the backend an object
  in which \<^verbatim>\<open>page\<close> is the request's \<^verbatim>\<open>current\<close>, \<^verbatim>\<open>per\<close> is its \<^verbatim>\<open>pageSize\<close>, \<^verbatim>\<open>current\<close>
  and \<^verbatim>\<open>pageSize\<close> are gone, and every other field not itself named \<^verbatim>\<open>page\<close> or \<^verbatim>\<open>per\<close> has
  the value it has in the request; in particular \<^verbatim>\<open>{current: 2, pageSize: 15, name: 'cardio'}\<close>
  produces \<^verbatim>\<open>{page: 2, per: 15, name: 'cardio'}\<close> (an object is its properties, in
  whatever order).
\<close>

theorem default_param_transform_renames:
  "(let sent = JObj (defaultTransformParams defaultParamTransform params) in
      apiParamsOf noOptions params = Inr sent \<and>
      get_prop sent ''page'' = get_prop (JObj params) ''current'' \<and>
      get_prop sent ''per'' = get_prop (JObj params) ''pageSize'' \<and>
      get_prop sent ''current'' = JUndefined \<and>
      get_prop sent ''pageSize'' = JUndefined \<and>
      (\<forall>k. k \<notin> {''current'', ''pageSize'', ''page'', ''per''} \<longrightarrow>
           get_prop sent k = get_prop (JObj params) k)) \<and>
   apiParamsOf noOptions
     [(''current'', JNum (Finite 2)), (''pageSize'', JNum (Finite 15)), (''name'', JStr ''cardio'')]
     = Inr (JObj [(''name'', JStr ''cardio''), (''page'', JNum (Finite 2)),
                  (''per'', JNum (Finite 15))])"
proof -
  have ex: "apiParamsOf noOptions
     [(''current'', JNum (Finite 2)), (''pageSize'', JNum (Finite 15)), (''name'', JStr ''cardio'')]
     = Inr (JObj [(''name'', JStr ''cardio''), (''page'', JNum (Finite 2)),
                  (''per'', JNum (Finite 15))])"
    by (simp add: adapter_eval)
  show ?thesis
    unfolding Let_def
    by (intro conjI allI impI apiParamsOf_noOptions ex)
       (simp_all only: defaultTransformParams_get, simp_all)
qed

text \<open>
  The theorem at the request \<^verbatim>\<open>{current: 3, pageSize: 20, name: 'icu', status: true}\<close>
  and its field \<^verbatim>\<open>status\<close>.
\<close>

theorem default_param_transform_renames_witness:
  "''status'' \<notin> {''current'', ''pageSize'', ''page'', ''per''} \<and>
   get_prop
     (JObj (defaultTransformParams defaultParamTransform
        [(''current'', JNum (Finite 3)), (''pageSize'', JNum (Finite 20)),
         (''name'', JStr ''icu''), (''status'', JBool True)])) ''status'' = JBool True"
proof -
  have h: "''status'' \<notin> {''current'', ''pageSize'', ''page'', ''per''}"
    by simp
  show ?thesis
    using h default_param_transform_renames
      [of "[(''current'', JNum (Finite 3)), (''pageSize'', JNum (Finite 20)),
            (''name'', JStr ''icu''), (''status'', JBool True)]"]
    by (simp add: Let_def)
qed

subsection \<open>Payloads without the envelope\<close>

text \<open>
  Claim C3, as stated, fails. The claim: for every payload that the backend call returns
  without throwing and that does not carry the response envelope, the empty object for
  example, the adapter returns \<^verbatim>\<open>{data: [], success: false, total: 0}\<close>. For the payload
  \<^verbatim>\<open>{}\<close> the adapter returns \<^verbatim>\<open>{data: [], success: true, total: 0}\<close>: nothing throws, and
  \<^verbatim>\<open>response.success ?? true\<close> is \<^verbatim>\<open>true\<close>.
\<close>

theorem empty_payload_success_counterexample:
  "defaultProTableRequest (\<lambda>apiParams. Inr (JObj []))
       [(''current'', JNum (Finite 1)), (''pageSize'', JNum (Finite 10))]
     = Inr \<lparr>data = JArr [], success = JBool True, total = JNum (Finite 0)\<rparr> \<and>
   defaultProTableRequest (\<lambda>apiParams. Inr (JObj []))
       [(''current'', JNum (Finite 1)), (''pageSize'', JNum (Finite 10))]
     \<noteq> Inr \<lparr>data = JArr [], success = JBool False, total = JNum (Finite 0)\<rparr>"
  by (simp add: adapter_eval)

text \<open>
  Claim C3, amended. For every payload that the backend call returns without throwing
  and that does not carry the response envelope (no array at \<^verbatim>\<open>data.list\<close>, no number at
  \<^verbatim>\<open>data.total\<close>), the adapter with the default options returns \<^verbatim>\<open>data: []\<close> and
  \<^verbatim>\<open>total: 0\<close>; \<^verbatim>\<open>success\<close> is \<^verbatim>\<open>false\<close> when the payload is \<^verbatim>\<open>null\<close> or \<^verbatim>\<open>undefined\<close> (reading
  it throws), and otherwise the payload's own \<^verbatim>\<open>success\<close> field, \<^verbatim>\<open>true\<close> when that field
  is missing or \<^verbatim>\<open>null\<close>.
\<close>

theorem malformed_payload_response:
  assumes "apiFunction (JObj (defaultTransformParams defaultParamTransform params)) = Inr response"
      and "\<not> isArray (getValueByPath response ''data.list'')"
      and "typeof (getValueByPath response ''data.total'') \<noteq> ''number''"
  shows "defaultProTableRequest apiFunction params =
           Inr \<lparr>data = JArr [],
                success = (if nullish response then JBool False
                           else js_coalesce (get_prop response ''success'') (JBool True)),
                total = JNum (Finite 0)\<rparr>"
proof -
  have "tryBlock apiFunction noOptions params =
          defaultTransformResponse defaultResponseTransform response"
    using assms(1) by (rule tryBlock_default)
  then show ?thesis
    using assms(2,3)
    by (simp add: defaultProTableRequest_def createProTableRequest_def
        defaultTransformResponse_eq defaultResponseTransform_def str_or_def failureResponse_def)
qed

text \<open>
  The theorem at the payload \<^verbatim>\<open>{success: false, errorMessage: 'denied'}\<close> and at the
  payload \<^verbatim>\<open>null\<close>.
\<close>

theorem malformed_payload_response_witness:
  "defaultProTableRequest
       (\<lambda>apiParams. Inr (JObj [(''success'', JBool False), (''errorMessage'', JStr ''denied'')]))
       [(''current'', JNum (Finite 1)), (''pageSize'', JNum (Finite 10))]
     = Inr \<lparr>data = JArr [], success = JBool False, total = JNum (Finite 0)\<rparr> \<and>
   defaultProTableRequest (\<lambda>apiParams. Inr JNull)
       [(''current'', JNum (Finite 1)), (''pageSize'', JNum (Finite 10))]
     = Inr \<lparr>data = JArr [], success = JBool False, total = JNum (Finite 0)\<rparr>"
proof -
  let ?denied = "JObj [(''success'', JBool False), (''errorMessage'', JStr ''denied'')]"
  let ?params = "[(''current'', JNum (Finite 1)), (''pageSize'', JNum (Finite 10))]"
  have a: "\<not> isArray (getValueByPath ?denied ''data.list'')"
    and b: "typeof (getValueByPath ?denied ''data.total'') \<noteq> ''number''"
    and c: "\<not> isArray (getValueByPath JNull ''data.list'')"
    and d: "typeof (getValueByPath JNull ''data.total'') \<noteq> ''number''"
    by (simp_all add: getValueByPath_def)
  have "defaultProTableRequest (\<lambda>apiParams. Inr ?denied) ?params
          = Inr \<lparr>data = JArr [], success = JBool False, total = JNum (Finite 0)\<rparr>"
    using malformed_payload_response [of "\<lambda>apiParams. Inr ?denied" ?params ?denied, OF refl a b]
    by (simp add: js_coalesce_def)
  moreover have "defaultProTableRequest (\<lambda>apiParams. Inr JNull) ?params
          = Inr \<lparr>data = JArr [], success = JBool False, total = JNum (Finite 0)\<rparr>"
    using malformed_payload_response [of "\<lambda>apiParams. Inr JNull" ?params JNull, OF refl c d]
    by simp
  ultimately show ?thesis by simp
qed

subsection \<open>The shape of the adapted response\<close>




subsection \<open>Missing fields and path resolution\<close>






section \<open>Properties of the image upload widget\<close>

lemmas widget_eval = toLowerCase_def toLowerChar_def upperCaseLetters_def lowerCaseLetters_def
  lastIndexOf_def substring_def validateFileType_def fileExtensionOf_def extensionGate_def
  mimeTypeMap_def objectPrototypeMembers_def Let_def

subsection \<open>The MIME gate\<close>

text \<open>
  Under the allowed extensions that the component has by default, and in general whenever
  the extension of an admitted file has an entry in the table, the MIME gate does what
  the specification says: the file is rejected exactly when it carries a reported type
  that is not among the acceptable strings of its extension.
\<close>

lemma mime_gate_on_listed_extension:
  assumes "extensionGate allowedExtensions file"
      and "mimeTypeMap (fileExtensionOf file) = Listed ms"
  shows "validateFileType allowedExtensions file = Inr (type file = [] \<or> type file \<in> set ms)"
  using assms
  by (auto simp add: validateFileType_def extensionGate_def fileExtensionOf_def Let_def
      list_ex_iff)

lemma default_extensions_are_listed:
  assumes "extensionGate [''png'', ''jpeg'', ''jpg'', ''svg''] file"
  shows "\<exists>ms. mimeTypeMap (fileExtensionOf file) = Listed ms"
proof -
  have "fileExtensionOf file \<in> {''png'', ''jpeg'', ''jpg'', ''svg''}"
    using assms
    by (auto simp add: extensionGate_def toLowerCase_def toLowerChar_def upperCaseLetters_def
        lowerCaseLetters_def)
  then show ?thesis
    by (auto simp add: mimeTypeMap_def)
qed

text \<open>
  Claim C5 holds of the specification and fails in the code. The claim: a file admitted
  past the extension gate is rejected by the MIME gate only when it carries a reported
  MIME type, its extension maps to a set of acceptable MIME strings in the table, and the
  reported type is not in that set. With \<^verbatim>\<open>allowedExtensions = ['gif']\<close> the file \<^verbatim>\<open>a.gif\<close> of
  type \<^verbatim>\<open>image/gif\<close> passes the extension gate, its extension has no entry in the table,
  and \<^verbatim>\<open>validateFileType\<close> returns \<^verbatim>\<open>false\<close>: \<^verbatim>\<open>mimeTypeMap[fileExtension] || []\<close> is the
  empty list, in which no type is found, so an extension that the caller allows and the
  table lacks can never be uploaded from a browser that reports types. For the allowed
  extension \<^verbatim>\<open>constructor\<close> the same lookup finds an inherited member and the check throws.
\<close>

theorem unmapped_extension_rejected:
  "extensionGate [''gif''] \<lparr>name = ''a.gif'', type = ''image/gif''\<rparr> \<and>
   mimeTypeMap (fileExtensionOf \<lparr>name = ''a.gif'', type = ''image/gif''\<rparr>) = NoEntry \<and>
   validateFileType [''gif''] \<lparr>name = ''a.gif'', type = ''image/gif''\<rparr> = Inr False \<and>
   extensionGate [''constructor''] \<lparr>name = ''a.constructor'', type = ''image/png''\<rparr> \<and>
   validateFileType [''constructor''] \<lparr>name = ''a.constructor'', type = ''image/png''\<rparr>
     = Inl TypeError"
  by (simp add: widget_eval)

subsection \<open>Confirm\<close>

text \<open>Auxiliary facts: what Confirm does when no file, and when some file, can be committed.\<close>

lemma handleConfirm_nothing:
  "filter doneWithUrl (fileList st) = [] \<Longrightarrow> handleConfirm props st = (st, [])"
  by (simp add: handleConfirm_def)

lemma handleConfirm_single_nothing:
  "filter doneWithUrl (fileList st) = [] \<Longrightarrow> handleConfirm_single props st = (st, [])"
proof -
  assume "filter doneWithUrl (fileList st) = []"
  then have "find doneWithUrl (fileList st) = None"
    by (simp add: find_None_iff filter_empty_conv)
  then show ?thesis by (simp add: handleConfirm_single_def)
qed

lemma find_filter_hd:
  "find P xs = (case filter P xs of [] \<Rightarrow> None | x # ys \<Rightarrow> Some x)"
  by (induction xs) auto

lemma filter_doneWithUrl_idem:
  "filter doneWithUrl (filter doneWithUrl xs) = filter doneWithUrl xs"
  by simp

lemma doneWithUrl_filter_done:
  "filter doneWithUrl (filter (\<lambda>file. status file = Some Done) xs) = filter doneWithUrl xs"
  by (induction xs) (auto simp add: doneWithUrl_def)

text \<open>
  Claim C7, as stated, fails. The claim: in single-image mode (\<^verbatim>\<open>maxCount = 1\<close>), Confirm
  with exactly one \<^verbatim>\<open>done\<close> entry sets the committed value to that entry's URL, a bare
  string, passes it to the callbacks, clears \<^verbatim>\<open>fileList\<close> and closes the dialog. When an
  image is committed already (\<^verbatim>\<open>imageUrls = ['old']\<close>, which the \<^verbatim>\<open>value\<close> prop can bring
  about while the dialog is open) and the one \<^verbatim>\<open>done\<close> entry has the URL \<^verbatim>\<open>'new'\<close>, the
  first version of the component commits \<^verbatim>\<open>'old'\<close>: the new URL is appended and the list is
  cut to \<^verbatim>\<open>maxCount\<close> entries from the front.
\<close>

theorem confirm_keeps_old_image_counterexample:
  "handleConfirm \<lparr>maxCount = 1, onChange = True, onSuccess = True\<rparr>
     \<lparr>modalVisible = True,
      fileList = [\<lparr>uid = ''f1'', status = Some Done, url = Some ''new''\<rparr>],
      imageUrls = [''old'']\<rparr>
   = (\<lparr>modalVisible = False, fileList = [], imageUrls = [''old'']\<rparr>,
      [OnChange (Url ''old''), OnSuccess (Url ''old'')])"
  by (simp add: handleConfirm_def doneWithUrl_def urlOf_def slice0_def notify_def Let_def)

text \<open>
  Claim C7, amended. In single-image mode, Confirm when exactly one \<^verbatim>\<open>fileList\<close> entry has
  status \<^verbatim>\<open>done\<close>, that entry has a non-empty URL, and (in the version with \<^verbatim>\<open>maxCount\<close>,
  where \<^verbatim>\<open>maxCount = 1\<close>) no image is committed yet, sets the committed value to that
  entry's URL, invokes the \<^verbatim>\<open>onChange\<close> and \<^verbatim>\<open>onSuccess\<close> callbacks that are given with it as
  a bare string (not a sequence), clears \<^verbatim>\<open>fileList\<close> and closes the dialog. The version
  without \<^verbatim>\<open>maxCount\<close> does so whatever image is committed.
\<close>

theorem confirm_single_image:
  "(maxCount props = 1 \<and> imageUrls st = [] \<and>
    filter (\<lambda>file. status file = Some Done) (fileList st) = [entry] \<and>
    url entry = Some u \<and> u \<noteq> [] \<longrightarrow>
      handleConfirm props st =
        (st\<lparr>imageUrls := [u], fileList := [], modalVisible := False\<rparr>,
         (if onChange props then [OnChange (Url u)] else []) @
         (if onSuccess props then [OnSuccess (Url u)] else []))) \<and>
   (filter (\<lambda>file. status file = Some Done) (fileList st1) = [entry] \<and>
    url entry = Some u \<and> u \<noteq> [] \<longrightarrow>
      handleConfirm_single props st1 =
        (st1\<lparr>imageUrl := Some u, fileList := [], modalVisible := False\<rparr>,
         (if onChange props then [OnChange (Url u)] else []) @
         (if onSuccess props then [OnSuccess (Url u)] else [])))"
proof (intro conjI impI)
  assume h: "maxCount props = 1 \<and> imageUrls st = [] \<and>
    filter (\<lambda>file. status file = Some Done) (fileList st) = [entry] \<and>
    url entry = Some u \<and> u \<noteq> []"
  then have "entry \<in> set (filter (\<lambda>file. status file = Some Done) (fileList st))" by simp
  then have d: "status entry = Some Done" by simp
  have "filter doneWithUrl (fileList st) = filter doneWithUrl [entry]"
    using h doneWithUrl_filter_done [of "fileList st"] by simp
  then have f: "filter doneWithUrl (fileList st) = [entry]"
    using h d by (simp add: doneWithUrl_def)
  show "handleConfirm props st =
        (st\<lparr>imageUrls := [u], fileList := [], modalVisible := False\<rparr>,
         (if onChange props then [OnChange (Url u)] else []) @
         (if onSuccess props then [OnSuccess (Url u)] else []))"
    using h by (simp add: handleConfirm_def f urlOf_def slice0_def notify_def Let_def)
next
  assume h: "filter (\<lambda>file. status file = Some Done) (fileList st1) = [entry] \<and>
    url entry = Some u \<and> u \<noteq> []"
  then have "entry \<in> set (filter (\<lambda>file. status file = Some Done) (fileList st1))" by simp
  then have d: "status entry = Some Done" by simp
  have "filter doneWithUrl (fileList st1) = filter doneWithUrl [entry]"
    using h doneWithUrl_filter_done [of "fileList st1"] by simp
  then have f: "filter doneWithUrl (fileList st1) = [entry]"
    using h d by (simp add: doneWithUrl_def)
  show "handleConfirm_single props st1 =
        (st1\<lparr>imageUrl := Some u, fileList := [], modalVisible := False\<rparr>,
         (if onChange props then [OnChange (Url u)] else []) @
         (if onSuccess props then [OnSuccess (Url u)] else []))"
    using h by (simp add: handleConfirm_single_def find_filter_hd f notify_def)
qed

text \<open>
  The theorem at a dialog with one failed and one finished upload, nothing committed in
  the first version and an earlier image committed in the third.
\<close>

theorem confirm_single_image_witness:
  "handleConfirm \<lparr>maxCount = 1, onChange = True, onSuccess = False\<rparr>
     \<lparr>modalVisible = True,
      fileList = [\<lparr>uid = ''f1'', status = Some Error, url = None\<rparr>,
                  \<lparr>uid = ''f2'', status = Some Done, url = Some ''/img/a.png''\<rparr>],
      imageUrls = []\<rparr>
   = (\<lparr>modalVisible = False, fileList = [], imageUrls = [''/img/a.png'']\<rparr>,
      [OnChange (Url ''/img/a.png'')]) \<and>
   handleConfirm_single \<lparr>maxCount = 1, onChange = True, onSuccess = False\<rparr>
     \<lparr>modalVisible = True,
      fileList = [\<lparr>uid = ''f1'', status = Some Error, url = None\<rparr>,
                  \<lparr>uid = ''f2'', status = Some Done, url = Some ''/img/a.png''\<rparr>],
      imageUrl = Some ''/img/old.png''\<rparr>
   = (\<lparr>modalVisible = False, fileList = [], imageUrl = Some ''/img/a.png''\<rparr>,
      [OnChange (Url ''/img/a.png'')])"
  using confirm_single_image
    [of "\<lparr>maxCount = 1, onChange = True, onSuccess = False\<rparr>"
        "\<lparr>modalVisible = True,
          fileList = [\<lparr>uid = ''f1'', status = Some Error, url = None\<rparr>,
                      \<lparr>uid = ''f2'', status = Some Done, url = Some ''/img/a.png''\<rparr>],
          imageUrls = []\<rparr>"
        "\<lparr>uid = ''f2'', status = Some Done, url = Some ''/img/a.png''\<rparr>"
        "''/img/a.png''"
        "\<lparr>modalVisible = True,
          fileList = [\<lparr>uid = ''f1'', status = Some Error, url = None\<rparr>,
                      \<lparr>uid = ''f2'', status = Some Done, url = Some ''/img/a.png''\<rparr>],
          imageUrl = Some ''/img/old.png''\<rparr>"]
  by simp

text \<open>
  Claim C8. Confirm when no \<^verbatim>\<open>fileList\<close> entry has status \<^verbatim>\<open>done\<close> is a no-op, in both
  versions that have the handler: the state (dialog open or not, \<^verbatim>\<open>fileList\<close>, committed
  images) is unchanged and no callback is invoked.
\<close>

theorem confirm_without_done_is_noop:
  "((\<forall>file \<in> set (fileList st). status file \<noteq> Some Done) \<longrightarrow>
      handleConfirm props st = (st, [])) \<and>
   ((\<forall>file \<in> set (fileList st1). status file \<noteq> Some Done) \<longrightarrow>
      handleConfirm_single props st1 = (st1, []))"
proof (intro conjI impI)
  assume "\<forall>file \<in> set (fileList st). status file \<noteq> Some Done"
  then have "filter doneWithUrl (fileList st) = []"
    by (simp add: filter_empty_conv doneWithUrl_def)
  then show "handleConfirm props st = (st, [])" by (rule handleConfirm_nothing)
next
  assume "\<forall>file \<in> set (fileList st1). status file \<noteq> Some Done"
  then have "filter doneWithUrl (fileList st1) = []"
    by (simp add: filter_empty_conv doneWithUrl_def)
  then show "handleConfirm_single props st1 = (st1, [])" by (rule handleConfirm_single_nothing)
qed

text \<open>The theorem at a dialog whose two uploads are in flight and failed.\<close>

theorem confirm_without_done_is_noop_witness:
  "handleConfirm \<lparr>maxCount = 3, onChange = True, onSuccess = True\<rparr>
     \<lparr>modalVisible = True,
      fileList = [\<lparr>uid = ''f1'', status = Some Uploading, url = None\<rparr>,
                  \<lparr>uid = ''f2'', status = Some Error, url = None\<rparr>],
      imageUrls = [''/img/a.png'']\<rparr>
   = (\<lparr>modalVisible = True,
       fileList = [\<lparr>uid = ''f1'', status = Some Uploading, url = None\<rparr>,
                   \<lparr>uid = ''f2'', status = Some Error, url = None\<rparr>],
       imageUrls = [''/img/a.png'']\<rparr>, []) \<and>
   handleConfirm_single \<lparr>maxCount = 3, onChange = True, onSuccess = True\<rparr>
     \<lparr>modalVisible = True,
      fileList = [\<lparr>uid = ''f1'', status = Some Uploading, url = None\<rparr>,
                  \<lparr>uid = ''f2'', status = Some Error, url = None\<rparr>],
      imageUrl = None\<rparr>
   = (\<lparr>modalVisible = True,
       fileList = [\<lparr>uid = ''f1'', status = Some Uploading, url = None\<rparr>,
                   \<lparr>uid = ''f2'', status = Some Error, url = None\<rparr>],
       imageUrl = None\<rparr>, [])"
  using confirm_without_done_is_noop
    [of "\<lparr>modalVisible = True,
          fileList = [\<lparr>uid = ''f1'', status = Some Uploading, url = None\<rparr>,
                      \<lparr>uid = ''f2'', status = Some Error, url = None\<rparr>],
          imageUrls = [''/img/a.png'']\<rparr>"
        "\<lparr>maxCount = 3, onChange = True, onSuccess = True\<rparr>"
        "\<lparr>modalVisible = True,
          fileList = [\<lparr>uid = ''f1'', status = Some Uploading, url = None\<rparr>,
                      \<lparr>uid = ''f2'', status = Some Error, url = None\<rparr>],
          imageUrl = None\<rparr>"]
  by simp

text \<open>
  Claim C10. Confirm commits only \<^verbatim>\<open>fileList\<close> entries that have both status \<^verbatim>\<open>done\<close> and a
  set, non-empty \<^verbatim>\<open>url\<close>: every URL committed was committed before or is the URL of such
  an entry; the entries that are not \<^verbatim>\<open>done\<close> with a URL contribute nothing, Confirm
  committing and reporting the same with them as with them removed; and if every \<^verbatim>\<open>done\<close>
  entry lacks a URL, Confirm is a no-op (state unchanged, dialog as it was, no callback),
  even though \<^verbatim>\<open>done\<close> entries exist. In both versions that have the handler.
\<close>

theorem confirm_commits_only_done_with_url:
  "set (imageUrls (fst (handleConfirm props st))) \<subseteq>
     set (imageUrls st) \<union>
     {u. \<exists>file \<in> set (fileList st). status file = Some Done \<and> url file = Some u \<and> u \<noteq> []} \<and>
   imageUrls (fst (handleConfirm props (st\<lparr>fileList := filter doneWithUrl (fileList st)\<rparr>)))
     = imageUrls (fst (handleConfirm props st)) \<and>
   snd (handleConfirm props (st\<lparr>fileList := filter doneWithUrl (fileList st)\<rparr>))
     = snd (handleConfirm props st) \<and>
   ((\<forall>file \<in> set (fileList st). status file = Some Done \<longrightarrow> url file = None \<or> url file = Some [])
      \<longrightarrow> handleConfirm props st = (st, [])) \<and>
   (imageUrl (fst (handleConfirm_single props st1)) = imageUrl st1 \<or>
    (\<exists>file \<in> set (fileList st1). status file = Some Done \<and> url file \<noteq> Some [] \<and>
       url file = imageUrl (fst (handleConfirm_single props st1)))) \<and>
   imageUrl (fst (handleConfirm_single props (st1\<lparr>fileList := filter doneWithUrl (fileList st1)\<rparr>)))
     = imageUrl (fst (handleConfirm_single props st1)) \<and>
   snd (handleConfirm_single props (st1\<lparr>fileList := filter doneWithUrl (fileList st1)\<rparr>))
     = snd (handleConfirm_single props st1) \<and>
   ((\<forall>file \<in> set (fileList st1). status file = Some Done \<longrightarrow> url file = None \<or> url file = Some [])
      \<longrightarrow> handleConfirm_single props st1 = (st1, []))"
proof (intro conjI impI)
  have sub: "set (slice0 xs n) \<subseteq> set xs" for xs :: "string list" and n
    by (auto simp add: slice0_def dest: in_set_takeD)
  have new: "set (map urlOf (filter doneWithUrl (fileList st))) \<subseteq>
     {u. \<exists>file \<in> set (fileList st). status file = Some Done \<and> url file = Some u \<and> u \<noteq> []}"
    by (auto simp add: doneWithUrl_def urlOf_def split: option.splits)
  show "set (imageUrls (fst (handleConfirm props st))) \<subseteq>
     set (imageUrls st) \<union>
     {u. \<exists>file \<in> set (fileList st). status file = Some Done \<and> url file = Some u \<and> u \<noteq> []}"
  proof (cases "filter doneWithUrl (fileList st) = []")
    case True
    then show ?thesis by (simp add: handleConfirm_nothing)
  next
    case False
    then have "imageUrls (fst (handleConfirm props st)) =
      slice0 (imageUrls st @ map urlOf (filter doneWithUrl (fileList st))) (maxCount props)"
      by (simp add: handleConfirm_def Let_def)
    then have "set (imageUrls (fst (handleConfirm props st))) \<subseteq>
      set (imageUrls st) \<union> set (map urlOf (filter doneWithUrl (fileList st)))"
      using sub [of "imageUrls st @ map urlOf (filter doneWithUrl (fileList st))" "maxCount props"]
      by (metis set_append)
    then show ?thesis
      using new by blast
  qed
next
  show "imageUrls (fst (handleConfirm props (st\<lparr>fileList := filter doneWithUrl (fileList st)\<rparr>)))
     = imageUrls (fst (handleConfirm props st))"
    by (simp add: handleConfirm_def Let_def)
next
  show "snd (handleConfirm props (st\<lparr>fileList := filter doneWithUrl (fileList st)\<rparr>))
     = snd (handleConfirm props st)"
    by (simp add: handleConfirm_def Let_def)
next
  assume "\<forall>file \<in> set (fileList st). status file = Some Done \<longrightarrow> url file = None \<or> url file = Some []"
  then have "filter doneWithUrl (fileList st) = []"
    by (auto simp add: filter_empty_conv doneWithUrl_def split: option.splits)
  then show "handleConfirm props st = (st, [])" by (rule handleConfirm_nothing)
next
  show "imageUrl (fst (handleConfirm_single props st1)) = imageUrl st1 \<or>
    (\<exists>file \<in> set (fileList st1). status file = Some Done \<and> url file \<noteq> Some [] \<and>
       url file = imageUrl (fst (handleConfirm_single props st1)))"
  proof (cases "find doneWithUrl (fileList st1)")
    case None
    then show ?thesis by (simp add: handleConfirm_single_def)
  next
    case (Some uploadedFile)
    then have "uploadedFile \<in> set (fileList st1) \<and> doneWithUrl uploadedFile"
      by (auto simp add: find_Some_iff)
    then show ?thesis
      using Some
      by (auto simp add: handleConfirm_single_def doneWithUrl_def split: option.splits)
  qed
next
  have "find doneWithUrl (filter doneWithUrl (fileList st1)) = find doneWithUrl (fileList st1)"
    by (simp only: find_filter_hd [of doneWithUrl] filter_doneWithUrl_idem)
  then show "imageUrl (fst (handleConfirm_single props
        (st1\<lparr>fileList := filter doneWithUrl (fileList st1)\<rparr>)))
     = imageUrl (fst (handleConfirm_single props st1))"
    by (simp add: handleConfirm_single_def split: option.splits)
next
  have "find doneWithUrl (filter doneWithUrl (fileList st1)) = find doneWithUrl (fileList st1)"
    by (simp only: find_filter_hd [of doneWithUrl] filter_doneWithUrl_idem)
  then show "snd (handleConfirm_single props (st1\<lparr>fileList := filter doneWithUrl (fileList st1)\<rparr>))
     = snd (handleConfirm_single props st1)"
    by (simp add: handleConfirm_single_def split: option.splits)
next
  assume "\<forall>file \<in> set (fileList st1). status file = Some Done \<longrightarrow> url file = None \<or> url file = Some []"
  then have "filter doneWithUrl (fileList st1) = []"
    by (auto simp add: filter_empty_conv doneWithUrl_def split: option.splits)
  then show "handleConfirm_single props st1 = (st1, [])" by (rule handleConfirm_single_nothing)
qed

text \<open>
  The theorem at a dialog whose only \<^verbatim>\<open>done\<close> entries have no URL and an empty URL: Confirm
  changes nothing.
\<close>

theorem confirm_commits_only_done_with_url_witness:
  "handleConfirm \<lparr>maxCount = 2, onChange = True, onSuccess = True\<rparr>
     \<lparr>modalVisible = True,
      fileList = [\<lparr>uid = ''f1'', status = Some Done, url = None\<rparr>,
                  \<lparr>uid = ''f2'', status = Some Done, url = Some ''''\<rparr>],
      imageUrls = []\<rparr>
   = (\<lparr>modalVisible = True,
       fileList = [\<lparr>uid = ''f1'', status = Some Done, url = None\<rparr>,
                   \<lparr>uid = ''f2'', status = Some Done, url = Some ''''\<rparr>],
       imageUrls = []\<rparr>, []) \<and>
   handleConfirm_single \<lparr>maxCount = 2, onChange = True, onSuccess = True\<rparr>
     \<lparr>modalVisible = True,
      fileList = [\<lparr>uid = ''f1'', status = Some Done, url = None\<rparr>,
                  \<lparr>uid = ''f2'', status = Some Done, url = Some ''''\<rparr>],
      imageUrl = Some ''/img/old.png''\<rparr>
   = (\<lparr>modalVisible = True,
       fileList = [\<lparr>uid = ''f1'', status = Some Done, url = None\<rparr>,
                   \<lparr>uid = ''f2'', status = Some Done, url = Some ''''\<rparr>],
       imageUrl = Some ''/img/old.png''\<rparr>, [])"
  using confirm_commits_only_done_with_url
    [of "\<lparr>maxCount = 2, onChange = True, onSuccess = True\<rparr>"
        "\<lparr>modalVisible = True,
          fileList = [\<lparr>uid = ''f1'', status = Some Done, url = None\<rparr>,
                      \<lparr>uid = ''f2'', status = Some Done, url = Some ''''\<rparr>],
          imageUrls = []\<rparr>"
        "\<lparr>modalVisible = True,
          fileList = [\<lparr>uid = ''f1'', status = Some Done, url = None\<rparr>,
                      \<lparr>uid = ''f2'', status = Some Done, url = Some ''''\<rparr>],
          imageUrl = Some ''/img/old.png''\<rparr>"]
  by simp

subsection \<open>Cancel\<close>

text \<open>
  Claim C9. For every widget state, Cancel closes the dialog and discards \<^verbatim>\<open>fileList\<close>,
  leaving the committed images as they are, exactly when no \<^verbatim>\<open>fileList\<close> entry has status
  \<^verbatim>\<open>uploading\<close>; while at least one entry has status \<^verbatim>\<open>uploading\<close>, Cancel is blocked: the
  state stays as it is, so the dialog is not closed and \<^verbatim>\<open>fileList\<close> is not discarded. In
  both versions that have the handler.
\<close>

theorem cancel_blocked_while_uploading:
  "((\<forall>file \<in> set (fileList st). status file \<noteq> Some Uploading) \<longrightarrow>
      handleCancel st = st\<lparr>fileList := [], modalVisible := False\<rparr>
      \<and> imageUrls (handleCancel st) = imageUrls st) \<and>
   ((\<exists>file \<in> set (fileList st). status file = Some Uploading) \<longrightarrow>
      handleCancel st = st \<and> fileList (handleCancel st) \<noteq> []) \<and>
   ((\<not> modalVisible (handleCancel st) \<and> fileList (handleCancel st) = []) =
      (\<forall>file \<in> set (fileList st). status file \<noteq> Some Uploading)) \<and>
   ((\<forall>file \<in> set (fileList st1). status file \<noteq> Some Uploading) \<longrightarrow>
      handleCancel st1 = st1\<lparr>fileList := [], modalVisible := False\<rparr>
      \<and> imageUrl (handleCancel st1) = imageUrl st1) \<and>
   ((\<exists>file \<in> set (fileList st1). status file = Some Uploading) \<longrightarrow>
      handleCancel st1 = st1 \<and> fileList (handleCancel st1) \<noteq> []) \<and>
   ((\<not> modalVisible (handleCancel st1) \<and> fileList (handleCancel st1) = []) =
      (\<forall>file \<in> set (fileList st1). status file \<noteq> Some Uploading))"
  by (auto simp add: handleCancel_def Let_def list_ex_iff)

text \<open>
  The theorem at a dialog with one upload in flight (Cancel does nothing) and at the same
  dialog once that upload has finished (Cancel closes it and empties the list).
\<close>

theorem cancel_blocked_while_uploading_witness:
  "handleCancel
     \<lparr>modalVisible = True,
      fileList = [\<lparr>uid = ''f1'', status = Some Uploading, url = None\<rparr>],
      imageUrls = [''/img/a.png'']\<rparr>
   = \<lparr>modalVisible = True,
      fileList = [\<lparr>uid = ''f1'', status = Some Uploading, url = None\<rparr>],
      imageUrls = [''/img/a.png'']\<rparr> \<and>
   handleCancel
     \<lparr>modalVisible = True,
      fileList = [\<lparr>uid = ''f1'', status = Some Done, url = Some ''/img/b.png''\<rparr>],
      imageUrl = Some ''/img/a.png''\<rparr>
   = \<lparr>modalVisible = False, fileList = [], imageUrl = Some ''/img/a.png''\<rparr>"
  using cancel_blocked_while_uploading
    [of "\<lparr>modalVisible = True,
          fileList = [\<lparr>uid = ''f1'', status = Some Uploading, url = None\<rparr>],
          imageUrls = [''/img/a.png'']\<rparr>"
        "\<lparr>modalVisible = True,
          fileList = [\<lparr>uid = ''f1'', status = Some Done, url = Some ''/img/b.png''\<rparr>],
          imageUrl = Some ''/img/a.png''\<rparr>"]
  by simp

end
